theory Spec2Isabelle
  imports Complex_Main "HOL-Library.Log_Nat"
begin

section \<open>Python values used by the meal battle models\<close>

text \<open>
  The development embeds \<^verbatim>\<open>meal_max/models/kitchen_model.py\<close> (the \<^verbatim>\<open>Meal\<close>
  dataclass and its \<^verbatim>\<open>__post_init__\<close> validation) and
  \<^verbatim>\<open>meal_max/models/battle_model.py\<close> (the \<^verbatim>\<open>BattleModel\<close> class).

  Exceptions are values: a function that can raise returns \<open>exn + 'a\<close>, with \<open>Inl\<close> the
  raised exception, and a procedure that returns nothing returns \<open>exn option\<close>.  Only the
  exception classes the two modules can raise are listed; the argument is the message (for
  \<^verbatim>\<open>KeyError\<close>, the missing key).

  Numbers: \<^verbatim>\<open>price\<close>, the battle score, delta and the random draw are Python
  \<^verbatim>\<open>float\<close>s, that is IEEE-754 binary64 values with round-to-nearest, ties-to-even
  arithmetic; they are modelled by the type \<open>double\<close> below.  Strings are \<open>string\<close>;
  one \<open>char\<close> stands for one character of the Python string, so \<open>length\<close> is Python's
  \<^verbatim>\<open>len\<close>.  Logging calls are not modelled.
\<close>

datatype exn =
    ValueError string
  | KeyError string
  | RuntimeError string
  | ZeroDivisionError string
  | OtherError string

subsection \<open>Python floats\<close>

text \<open>
  A binary64 value is a finite number \<open>m * 2 ^ e\<close> with \<open>\<bar>m\<bar> < 2 ^ 53\<close> and
  \<open>- 1074 \<le> e \<le> 971\<close>, an infinity or a NaN.  A finite value is carried as the real
  number it denotes.  The sign of zero is not modelled: no operation the two modules
  perform (product, difference, absolute value, quotient by 100, comparison) tells
  \<^verbatim>\<open>-0.0\<close> from \<^verbatim>\<open>0.0\<close>, and \<^verbatim>\<open>==\<close> identifies them.
\<close>

datatype double = Finite real | PInf | NInf | NaN

text \<open>
  \<open>ilog2 q\<close> is the binary exponent of a non-zero \<open>q\<close>: the \<open>e\<close> with
  \<open>2 ^ e \<le> \<bar>q\<bar> < 2 ^ (e + 1)\<close>, read off the bit length of the integer part of
  \<open>\<bar>q\<bar>\<close> (or of its reciprocal when \<open>\<bar>q\<bar> < 1\<close>).
\<close>

definition ilog2 :: "real \<Rightarrow> int" where
  "ilog2 q =
     (if 1 \<le> \<bar>q\<bar> then bitlen \<lfloor>\<bar>q\<bar>\<rfloor> - 1 else - bitlen (\<lceil>1 / \<bar>q\<bar>\<rceil> - 1))"

text \<open>Rounding to the nearest integer, a tie going to the even neighbour.\<close>

definition round_half_even :: "real \<Rightarrow> int" where
  "round_half_even x =
     (let f = \<lfloor>x\<rfloor>; d = x - of_int f
      in if d < 1 / 2 then f else if 1 / 2 < d then f + 1 else if even f then f else f + 1)"

text \<open>
  Rounding an exact result to binary64.  The unit in the last place of \<open>q\<close> is
  \<open>2 ^ (e - 52)\<close> for the exponent \<open>e\<close> of \<open>q\<close>, and never less than \<open>2 ^ - 1074\<close>
  (subnormal range); \<open>q\<close> is rounded to the nearest multiple of it, and a result of
  magnitude \<open>2 ^ 1024\<close> or more is an infinity.
\<close>

definition round_double :: "real \<Rightarrow> double" where
  "round_double q =
     (if q = 0 then Finite 0
      else
        let e = max (ilog2 q) (- 1022);
            u = 2 powi (e - 52);
            r = of_int (round_half_even (q / u)) * u
        in if 2 powi 1024 \<le> r then PInf
           else if r \<le> - (2 powi 1024) then NInf
           else Finite r)"

text \<open>The reals that are binary64 values: those that rounding leaves alone.\<close>

definition is_double :: "real \<Rightarrow> bool" where
  "is_double q = (round_double q = Finite q)"

text \<open>
  The conversion \<^verbatim>\<open>float(n)\<close> that Python applies to the integer operand of a mixed
  operation.  (For \<open>\<bar>n\<bar> \<ge> 2 ^ 1024\<close> Python raises \<^verbatim>\<open>OverflowError\<close>; the integers
  converted here are the length of a string and the literals 1, 2, 3 and 100.)
\<close>

definition int_to_double :: "int \<Rightarrow> double" where
  "int_to_double n = round_double (of_int n)"

text \<open>
  The arithmetic of \<^verbatim>\<open>float\<close>: the exact result, rounded; the usual rules for
  infinities and NaN.
\<close>

fun dsgn :: "double \<Rightarrow> real" where
  "dsgn (Finite a) = sgn a"
| "dsgn PInf = 1"
| "dsgn NInf = - 1"
| "dsgn NaN = 0"

fun dmul :: "double \<Rightarrow> double \<Rightarrow> double" where
  "dmul NaN y = NaN"
| "dmul x NaN = NaN"
| "dmul (Finite a) (Finite b) = round_double (a * b)"
| "dmul x y =
     (if dsgn x * dsgn y = 0 then NaN else if 0 < dsgn x * dsgn y then PInf else NInf)"

fun dsub :: "double \<Rightarrow> double \<Rightarrow> double" where
  "dsub NaN y = NaN"
| "dsub x NaN = NaN"
| "dsub (Finite a) (Finite b) = round_double (a - b)"
| "dsub PInf PInf = NaN"
| "dsub NInf NInf = NaN"
| "dsub PInf y = PInf"
| "dsub NInf y = NInf"
| "dsub (Finite a) PInf = NInf"
| "dsub (Finite a) NInf = PInf"

fun dabs :: "double \<Rightarrow> double" where
  "dabs (Finite a) = Finite \<bar>a\<bar>"
| "dabs PInf = PInf"
| "dabs NInf = PInf"
| "dabs NaN = NaN"

text \<open>
  True division \<^verbatim>\<open>x / y\<close>: Python tests the divisor first and raises
  \<^verbatim>\<open>ZeroDivisionError\<close> for a zero.
\<close>

fun ddiv :: "double \<Rightarrow> double \<Rightarrow> exn + double" where
  "ddiv x (Finite b) =
     (if b = 0 then Inl (ZeroDivisionError ''float division by zero'')
      else case x of
             Finite a \<Rightarrow> Inr (round_double (a / b))
           | NaN \<Rightarrow> Inr NaN
           | _ \<Rightarrow> Inr (if 0 < dsgn x * sgn b then PInf else NInf))"
| "ddiv x NaN = Inr NaN"
| "ddiv (Finite a) y = Inr (Finite 0)"
| "ddiv x y = Inr NaN"

text \<open>The comparisons \<^verbatim>\<open>x > y\<close> and \<^verbatim>\<open>x < y\<close>, false when an operand is NaN.\<close>

fun dgt :: "double \<Rightarrow> double \<Rightarrow> bool" where
  "dgt NaN y = False"
| "dgt x NaN = False"
| "dgt (Finite a) (Finite b) = (b < a)"
| "dgt PInf y = (y \<noteq> PInf)"
| "dgt x NInf = (x \<noteq> NInf)"
| "dgt x y = False"

definition dlt :: "double \<Rightarrow> double \<Rightarrow> bool" where
  "dlt x y = dgt y x"

text \<open>\<^verbatim>\<open>x >= y\<close>: greater or equal, false when an operand is NaN.\<close>

definition dge :: "double \<Rightarrow> double \<Rightarrow> bool" where
  "dge x y = (x \<noteq> NaN \<and> y \<noteq> NaN \<and> \<not> dgt y x)"

subsection \<open>kitchen\_model.Meal\<close>

text \<open>
  The dataclass fields, in declaration order.  The field \<^verbatim>\<open>id\<close> is named
  \<open>id_Meal\<close> because \<open>id\<close> is the identity function of HOL.  The dataclass is not
  frozen: a caller can assign any field after construction, so a \<open>Meal\<close> value handed to
  the battle model is an arbitrary record.
\<close>

record Meal =
  id_Meal :: int
  meal :: string
  cuisine :: string
  price :: double
  difficulty :: string

text \<open>
  \<^verbatim>\<open>Meal.__post_init__\<close>: the two checks in source order.  The comparison of the
  float \<^verbatim>\<open>price\<close> with the integer 0 is exact.
\<close>

definition post_init :: "Meal \<Rightarrow> exn option" where
  "post_init self =
     (if dlt (price self) (Finite 0) then Some (ValueError ''Price must be a positive value.'')
      else if difficulty self \<notin> set [''Easy'', ''Medium'', ''Hard'']
        then Some (ValueError ''Difficulty must be 'Easy', 'Medium', or 'Hard'.'')
      else None)"

text \<open>
  \<^verbatim>\<open>Meal(id, meal, cuisine, price, difficulty)\<close>: the generated \<^verbatim>\<open>__init__\<close>
  stores the five fields and then runs \<^verbatim>\<open>__post_init__\<close>; an exception raised there
  leaves the caller without an object.
\<close>

definition new_Meal ::
  "int \<Rightarrow> string \<Rightarrow> string \<Rightarrow> double \<Rightarrow> string \<Rightarrow> exn + Meal" where
  "new_Meal i n c p d =
     (let self = \<lparr>id_Meal = i, meal = n, cuisine = c, price = p, difficulty = d\<rparr>
      in case post_init self of Some e \<Rightarrow> Inl e | None \<Rightarrow> Inr self)"

subsection \<open>battle\_model.BattleModel\<close>

record BattleModel =
  combatants :: "Meal list"

definition BattleModel_init :: BattleModel where
  "BattleModel_init = \<lparr>combatants = []\<rparr>"

text \<open>The dictionary literal of \<^verbatim>\<open>get_battle_score\<close>.\<close>

definition difficulty_modifier :: "string \<rightharpoonup> int" where
  "difficulty_modifier = [''HIGH'' \<mapsto> 1, ''MED'' \<mapsto> 2, ''LOW'' \<mapsto> 3]"

text \<open>
  \<^verbatim>\<open>get_battle_score\<close>: the subscript \<^verbatim>\<open>difficulty_modifier[combatant.difficulty]\<close>
  raises \<^verbatim>\<open>KeyError\<close> on a missing key; the product to its left cannot raise.  The
  product is \<^verbatim>\<open>float * int\<close> and the difference \<^verbatim>\<open>float - int\<close>: the integer
  operand is converted and the operation is the float one, so each of the two results
  is rounded.
\<close>

definition get_battle_score :: "Meal \<Rightarrow> exn + double" where
  "get_battle_score combatant =
     (case difficulty_modifier (difficulty combatant) of
        None \<Rightarrow> Inl (KeyError (difficulty combatant))
      | Some modifier \<Rightarrow>
          Inr (dsub (dmul (price combatant) (int_to_double (int (length (cuisine combatant)))))
                 (int_to_double modifier)))"

text \<open>
  \<^verbatim>\<open>list.remove(x)\<close>: deletes the first element equal to \<open>x\<close> and raises
  \<^verbatim>\<open>ValueError\<close> when there is none.  Equality of two \<^verbatim>\<open>Meal\<close> objects is the
  dataclass's field-wise \<^verbatim>\<open>__eq__\<close>, which is equality of records.  (Python's
  \<^verbatim>\<open>==\<close> does not identify a NaN with itself, but \<^verbatim>\<open>list.remove\<close> tests
  identity before equality, and with a NaN score the loser is the first element of the
  list: the element removed is the same.)
\<close>

definition list_remove :: "'a list \<Rightarrow> 'a \<Rightarrow> exn + 'a list" where
  "list_remove xs x =
     (if x \<in> set xs then Inr (remove1 x xs)
      else Inl (ValueError ''list.remove(x): x not in list''))"

text \<open>
  The two collaborators of \<^verbatim>\<open>battle\<close>.

  \<^verbatim>\<open>update_meal_stats(meal_id, result)\<close> is imported from \<^verbatim>\<open>kitchen_model\<close> but
  the module does not define it, so it is a parameter of the model: a function from the
  identifier, the result label and the storage to the exception raised (if any) and the
  storage afterwards.  The model keeps the trace of the calls made: an entry is appended
  for every call, whether it raises or not.

  \<^verbatim>\<open>get_random()\<close> of \<^verbatim>\<open>random_utils\<close> asks random.org over HTTP;
  \<^verbatim>\<open>battle\<close> calls it at most once, and the outcome of that call (the number
  returned, or the exception raised) is a parameter of the model.
\<close>

record 'db stats =
  calls :: "(int \<times> string) list"
  store :: 'db

type_synonym 'db updater = "int \<Rightarrow> string \<Rightarrow> 'db \<Rightarrow> exn option \<times> 'db"

definition call_update_meal_stats ::
  "'db updater \<Rightarrow> int \<Rightarrow> string \<Rightarrow> 'db stats \<Rightarrow> exn option \<times> 'db stats" where
  "call_update_meal_stats update_meal_stats meal_id result w =
     (case update_meal_stats meal_id result (store w) of
        (e, d) \<Rightarrow> (e, \<lparr>calls = calls w @ [(meal_id, result)], store = d\<rparr>))"

text \<open>
  \<^verbatim>\<open>BattleModel.battle\<close>.  The result is the value returned or the exception raised,
  the object afterwards and the statistics side afterwards.  An exception leaves the
  object as the statements before it left it.
\<close>

definition battle ::
  "exn + double \<Rightarrow> 'db updater \<Rightarrow> BattleModel \<Rightarrow> 'db stats
     \<Rightarrow> (exn + string) \<times> BattleModel \<times> 'db stats" where
  "battle get_random update_meal_stats self w =
     (if length (combatants self) < 2
        then (Inl (ValueError ''Two combatants must be prepped for a battle.''), self, w)
      else
        let combatant_1 = combatants self ! 0;
            combatant_2 = combatants self ! 1
        in case get_battle_score combatant_1 of
             Inl e \<Rightarrow> (Inl e, self, w)
           | Inr score_1 \<Rightarrow>
        (case get_battle_score combatant_2 of
             Inl e \<Rightarrow> (Inl e, self, w)
           | Inr score_2 \<Rightarrow>
        (case ddiv (dabs (dsub score_1 score_2)) (int_to_double 100) of
              Inl e \<Rightarrow> (Inl e, self, w)
            | Inr delta \<Rightarrow>
        (case get_random of
              Inl e \<Rightarrow> (Inl e, self, w)
            | Inr random_number \<Rightarrow>
        (let winner = (if dgt delta random_number then combatant_1 else combatant_2);
             loser = (if dgt delta random_number then combatant_2 else combatant_1)
         in case call_update_meal_stats update_meal_stats (id_Meal winner) ''win'' w of
              (Some e, w1) \<Rightarrow> (Inl e, self, w1)
            | (None, w1) \<Rightarrow>
        (case call_update_meal_stats update_meal_stats (id_Meal loser) ''loss'' w1 of
              (Some e, w2) \<Rightarrow> (Inl e, self, w2)
            | (None, w2) \<Rightarrow>
        (case list_remove (combatants self) loser of
              Inl e \<Rightarrow> (Inl e, self, w2)
            | Inr cs \<Rightarrow> (Inr (meal winner), self\<lparr>combatants := cs\<rparr>, w2))))))))"

text \<open>\<^verbatim>\<open>clear_combatants\<close>, \<^verbatim>\<open>get_combatants\<close> and \<^verbatim>\<open>prep_combatant\<close>.\<close>

definition clear_combatants :: "BattleModel \<Rightarrow> BattleModel" where
  "clear_combatants self = self\<lparr>combatants := []\<rparr>"

definition get_combatants :: "BattleModel \<Rightarrow> Meal list" where
  "get_combatants self = combatants self"

definition prep_combatant :: "BattleModel \<Rightarrow> Meal \<Rightarrow> exn option \<times> BattleModel" where
  "prep_combatant self combatant_data =
     (if length (combatants self) \<ge> 2
        then (Some (ValueError ''Combatant list is full, cannot add more combatants.''), self)
      else (None, self\<lparr>combatants := combatants self @ [combatant_data]\<rparr>))"

subsection \<open>Sequences of operations\<close>

text \<open>
  A caller's session with one \<^verbatim>\<open>BattleModel\<close> object is a list of method calls;
  \<open>Resolve\<close> carries the outcome of that call's \<^verbatim>\<open>get_random()\<close>.  An exception is
  caught by the caller, who goes on with the object as the call left it.
\<close>

datatype operation = Stage Meal | Resolve "exn + double" | Clear

fun apply_operation ::
  "'db updater \<Rightarrow> BattleModel \<times> 'db stats \<Rightarrow> operation \<Rightarrow> BattleModel \<times> 'db stats" where
  "apply_operation upd (self, w) (Stage m) = (snd (prep_combatant self m), w)"
| "apply_operation upd (self, w) (Resolve r) = snd (battle r upd self w)"
| "apply_operation upd (self, w) Clear = (clear_combatants self, w)"

definition run_operations ::
  "'db updater \<Rightarrow> 'db stats \<Rightarrow> operation list \<Rightarrow> BattleModel \<times> 'db stats" where
  "run_operations upd w ops = foldl (apply_operation upd) (BattleModel_init, w) ops"

subsection \<open>Concrete values\<close>

text \<open>
  The field values of the fixtures \<^verbatim>\<open>sample_meal1\<close> and \<^verbatim>\<open>sample_meal2\<close> of
  \<^verbatim>\<open>tests/battle_model_tests.py\<close>, as objects whose fields hold these values, and two
  meals built with labels the constructor accepts.  The prices are the binary64 values
  of the literals \<^verbatim>\<open>12.99\<close> and \<^verbatim>\<open>9.99\<close>.
\<close>

definition sample_meal1 :: Meal where
  "sample_meal1 = \<lparr>id_Meal = 1, meal = ''Pizza'', cuisine = ''Italian'',
     price = Finite (7312719894942843 / 562949953421312), difficulty = ''MED''\<rparr>"

definition sample_meal2 :: Meal where
  "sample_meal2 = \<lparr>id_Meal = 2, meal = ''Burger'', cuisine = ''American'',
     price = Finite (5623870034678907 / 562949953421312), difficulty = ''LOW''\<rparr>"

definition easy_meal :: Meal where
  "easy_meal = \<lparr>id_Meal = 3, meal = ''Toast'', cuisine = ''British'',
     price = Finite 4, difficulty = ''Easy''\<rparr>"

definition hard_meal :: Meal where
  "hard_meal = \<lparr>id_Meal = 4, meal = ''Souffle'', cuisine = ''French'',
     price = Finite 18, difficulty = ''Hard''\<rparr>"

text \<open>
  Two statistics updaters over a storage that counts the updates committed: one that
  always commits, and one that commits wins and raises on a loss.
\<close>

definition always_commits :: "nat updater" where
  "always_commits meal_id result d = (None, Suc d)"

definition fails_on_loss :: "nat updater" where
  "fails_on_loss meal_id result d =
     (if result = ''loss'' then (Some (OtherError ''database is locked''), d)
      else (None, Suc d))"

definition no_calls :: "nat stats" where
  "no_calls = \<lparr>calls = [], store = 0\<rparr>"

text \<open>
  Meals whose cuisine is the one-character label \<^verbatim>\<open>'X'\<close>: a price of
  \<^verbatim>\<open>1e17\<close>, and the prices \<^verbatim>\<open>102.0\<close> and \<^verbatim>\<open>1.9999999999999951\<close>; and a
  meal of price \<^verbatim>\<open>0.05\<close> and cuisine \<^verbatim>\<open>'Thai'\<close>.
\<close>

definition x_meal :: "int \<Rightarrow> string \<Rightarrow> real \<Rightarrow> string \<Rightarrow> Meal" where
  "x_meal i n p d = \<lparr>id_Meal = i, meal = n, cuisine = ''X'',
     price = Finite p, difficulty = d\<rparr>"

definition thai_meal :: "string \<Rightarrow> Meal" where
  "thai_meal d = \<lparr>id_Meal = 7, meal = ''Curry'', cuisine = ''Thai'',
     price = Finite (3602879701896397 / 72057594037927936), difficulty = d\<rparr>"

section \<open>Rounding\<close>

text \<open>
  \<open>ilog2\<close> is the binary exponent, and \<open>round_half_even\<close> moves its argument by at
  most one half: \<open>round_double q\<close> is a multiple of the unit in the last place of \<open>q\<close>
  at distance at most half that unit from \<open>q\<close>.
\<close>

lemma bitlen_powi_bounds:
  assumes "0 < n"
  shows "(2::real) powi (bitlen n - 1) \<le> real_of_int n"
    and "real_of_int n + 1 \<le> 2 powi bitlen n"
proof -
  from assms have pos: "1 \<le> bitlen n"
    by (simp add: bitlen_alt_def)
  from bitlen_bounds [OF assms]
  have lo: "2 ^ nat (bitlen n - 1) \<le> n" and hi: "n + 1 \<le> 2 ^ nat (bitlen n)"
    by simp_all
  from lo have "real_of_int (2 ^ nat (bitlen n - 1)) \<le> real_of_int n"
    by (rule of_int_le_iff [THEN iffD2])
  with pos show "(2::real) powi (bitlen n - 1) \<le> real_of_int n"
    by (simp add: power_int_def)
  from hi have "real_of_int (n + 1) \<le> real_of_int (2 ^ nat (bitlen n))"
    by (rule of_int_le_iff [THEN iffD2])
  with pos show "real_of_int n + 1 \<le> 2 powi bitlen n"
    by (simp add: power_int_def)
qed

lemma ilog2_bounds:
  assumes "q \<noteq> 0"
  shows "2 powi ilog2 q \<le> \<bar>q\<bar> \<and> \<bar>q\<bar> < 2 powi (ilog2 q + 1)"
proof (cases "1 \<le> \<bar>q\<bar>")
  case True
  define n where "n = \<lfloor>\<bar>q\<bar>\<rfloor>"
  from True have n: "0 < n"
    unfolding n_def by linarith
  have e: "ilog2 q = bitlen n - 1"
    using True by (simp add: ilog2_def n_def)
  have "real_of_int n \<le> \<bar>q\<bar>" and "\<bar>q\<bar> < real_of_int n + 1"
    unfolding n_def by linarith+
  with bitlen_powi_bounds [OF n] show ?thesis
    unfolding e by simp
next
  case False
  define x where "x = 1 / \<bar>q\<bar>"
  define n where "n = \<lceil>x\<rceil> - 1"
  from False assms have x: "1 < x" and q: "0 < \<bar>q\<bar>"
    unfolding x_def by simp_all
  then have n: "0 < n"
    unfolding n_def by linarith
  have e: "ilog2 q = - bitlen n"
    using False by (simp add: ilog2_def n_def x_def)
  have between: "real_of_int n < x" "x \<le> real_of_int n + 1"
    unfolding n_def by linarith+
  from bitlen_powi_bounds [OF n] between
  have up: "x \<le> 2 powi bitlen n" and lo: "2 powi (bitlen n - 1) < x"
    by linarith+
  have p: "0 < (2::real) powi bitlen n" "0 < (2::real) powi (bitlen n - 1)"
    by simp_all
  from up q p have "1 / (2 powi bitlen n) \<le> \<bar>q\<bar>"
    unfolding x_def by (simp add: field_simps)
  moreover from lo q p have "\<bar>q\<bar> < 1 / (2 powi (bitlen n - 1))"
    unfolding x_def by (simp add: field_simps)
  moreover have "(2::real) powi (- bitlen n) = 1 / (2 powi bitlen n)"
    by (simp add: power_int_minus_divide)
  moreover have "(2::real) powi (- bitlen n + 1) = 1 / (2 powi (bitlen n - 1))"
    using power_int_minus_divide [of "2::real" "bitlen n - 1"] by simp
  ultimately show ?thesis
    unfolding e by simp
qed

lemma round_half_even_near: "\<bar>real_of_int (round_half_even x) - x\<bar> \<le> 1 / 2"
  unfolding round_half_even_def Let_def by (simp; linarith)

lemma round_double_near:
  assumes "round_double q = Finite r"
  shows "\<bar>r - q\<bar> \<le> 2 powi (max (ilog2 q) (- 1022) - 52) / 2"
proof (cases "q = 0")
  case True
  with assms show ?thesis
    by (simp add: round_double_def)
next
  case False
  define u :: real where "u = 2 powi (max (ilog2 q) (- 1022) - 52)"
  have u: "0 < u"
    unfolding u_def by simp
  from assms False have r: "r = real_of_int (round_half_even (q / u)) * u"
    by (simp add: round_double_def Let_def u_def split: if_splits)
  have "\<bar>real_of_int (round_half_even (q / u)) - q / u\<bar> * u \<le> 1 / 2 * u"
    using round_half_even_near [of "q / u"] u by (intro mult_right_mono) simp_all
  moreover have "(real_of_int (round_half_even (q / u)) - q / u) * u =
      real_of_int (round_half_even (q / u)) * u - q"
    using u by (simp add: left_diff_distrib)
  then have "\<bar>real_of_int (round_half_even (q / u)) - q / u\<bar> * u =
      \<bar>real_of_int (round_half_even (q / u)) * u - q\<bar>"
    using u by (metis abs_mult abs_of_pos)
  ultimately show ?thesis
    unfolding r u_def [symmetric] by simp
qed

section \<open>Evaluation lemmas\<close>

text \<open>Concrete roundings are computed by unfolding the definitions.\<close>

lemmas round_double_eval =
  round_double_def ilog2_def round_half_even_def Let_def compute_bitlen power_int_minus_divide

lemma int_to_double_small:
  "int_to_double 0 = Finite 0" "int_to_double 1 = Finite 1" "int_to_double 2 = Finite 2"
  "int_to_double 3 = Finite 3" "int_to_double 4 = Finite 4" "int_to_double 7 = Finite 7"
  "int_to_double 8 = Finite 8" "int_to_double 100 = Finite 100"
  by (simp_all add: int_to_double_def round_double_eval)

lemma delta_computed: "\<exists>delta. ddiv x (int_to_double 100) = Inr delta"
  by (cases x) (simp_all add: int_to_double_small)

lemma penalty_exact: "difficulty_modifier d = Some k \<Longrightarrow> int_to_double k = Finite (real_of_int k)"
  by (auto simp: difficulty_modifier_def int_to_double_small split: if_splits)

text \<open>
  With two staged combatants whose scores are computed and a draw delivered, the method
  is the decision followed by the two reports and the removal of the loser; since the
  loser is one of the two list elements, \<^verbatim>\<open>list.remove\<close> cannot raise, and what is
  left is the winner.  The division by 100 never raises.
\<close>

lemma battle_two:
  assumes cs: "combatants self = [c1, c2]"
    and s1: "get_battle_score c1 = Inr s1"
    and s2: "get_battle_score c2 = Inr s2"
    and d: "ddiv (dabs (dsub s1 s2)) (int_to_double 100) = Inr delta"
  shows "battle (Inr r) upd self w =
     (let winner = (if dgt delta r then c1 else c2);
          loser = (if dgt delta r then c2 else c1)
      in case call_update_meal_stats upd (id_Meal winner) ''win'' w of
              (Some e, w1) \<Rightarrow> (Inl e, self, w1)
            | (None, w1) \<Rightarrow>
        (case call_update_meal_stats upd (id_Meal loser) ''loss'' w1 of
              (Some e, w2) \<Rightarrow> (Inl e, self, w2)
            | (None, w2) \<Rightarrow> (Inr (meal winner), self\<lparr>combatants := [winner]\<rparr>, w2)))"
  using cs s1 s2 d
  by (auto simp: battle_def Let_def list_remove_def split: prod.splits option.splits)

lemma battle_length_le:
  "length (combatants (fst (snd (battle rnd upd self w)))) \<le> length (combatants self)"
  by (auto simp: battle_def Let_def list_remove_def length_remove1
      split: if_splits sum.splits prod.splits option.splits)

lemma prep_combatant_length_le:
  "length (combatants self) \<le> 2 \<Longrightarrow> length (combatants (snd (prep_combatant self m))) \<le> 2"
  by (simp add: prep_combatant_def)

lemma apply_operation_bound:
  "length (combatants (fst st)) \<le> 2 \<Longrightarrow>
   length (combatants (fst (apply_operation upd st x))) \<le> 2"
proof (cases st)
  case (Pair self w)
  assume b: "length (combatants (fst st)) \<le> 2"
  show ?thesis
  proof (cases x)
    case (Stage m)
    with Pair b show ?thesis by (simp add: prep_combatant_length_le)
  next
    case (Resolve r)
    have "length (combatants (fst (snd (battle r upd self w)))) \<le> length (combatants self)"
      by (rule battle_length_le)
    with Pair b Resolve show ?thesis by simp
  next
    case Clear
    with Pair show ?thesis by (simp add: clear_combatants_def)
  qed
qed

lemma foldl_apply_operation_bound:
  "length (combatants (fst st)) \<le> 2 \<Longrightarrow>
   length (combatants (fst (foldl (apply_operation upd) st ops))) \<le> 2"
proof (induction ops arbitrary: st)
  case Nil
  then show ?case by simp
next
  case (Cons x xs)
  from Cons.prems have "length (combatants (fst (apply_operation upd st x))) \<le> 2"
    by (rule apply_operation_bound)
  then show ?case using Cons.IH by simp
qed

text \<open>
  The fixtures in binary64: the scores are the doubles printed \<^verbatim>\<open>88.93\<close> and
  \<^verbatim>\<open>76.92\<close>, and delta is the double printed \<^verbatim>\<open>0.12010000000000005\<close>, which is
  above the double of the literal \<^verbatim>\<open>0.1201\<close>.  The prices and draws used below are
  the binary64 values of their decimal literals.
\<close>

lemma score_sample_meal1:
  "get_battle_score sample_meal1 = Inr (Finite (1564473104929915 / 17592186044416))"
  by (simp add: get_battle_score_def difficulty_modifier_def sample_meal1_def
      int_to_double_small round_double_eval)

lemma score_sample_meal2:
  "get_battle_score sample_meal2 = Inr (Finite (5412763802145915 / 70368744177664))"
  by (simp add: get_battle_score_def difficulty_modifier_def sample_meal2_def
      int_to_double_small round_double_eval)

lemma delta_samples:
  "ddiv (dabs (dsub (Finite (1564473104929915 / 17592186044416))
      (Finite (5412763802145915 / 70368744177664)))) (int_to_double 100) =
   Inr (Finite (8654117043955149 / 72057594037927936))"
  by (simp add: int_to_double_small round_double_eval)

lemmas battle_samples = battle_two [OF _ score_sample_meal1 score_sample_meal2 delta_samples]

lemma literal_doubles:
  "round_double (1299 / 100) = Finite (7312719894942843 / 562949953421312)"
  "round_double (999 / 100) = Finite (5623870034678907 / 562949953421312)"
  "round_double (1201 / 10000) = Finite (8654117043955145 / 72057594037927936)"
  "round_double (1 / 20) = Finite (3602879701896397 / 72057594037927936)"
  "round_double (19999999999999951 / 10 ^ 16) = Finite (4503599627370485 / 2251799813685248)"
  "round_double (10 ^ 17) = Finite (10 ^ 17)"
  by (simp_all add: round_double_eval)

lemma battle_samples_draw_1201:
  "battle (Inr (Finite (8654117043955145 / 72057594037927936))) always_commits
     \<lparr>combatants = [sample_meal1, sample_meal2]\<rparr> no_calls =
     (Inr ''Pizza'', \<lparr>combatants = [sample_meal1]\<rparr>,
      \<lparr>calls = [(1, ''win''), (2, ''loss'')], store = 2\<rparr>)"
  by (simp add: battle_samples call_update_meal_stats_def always_commits_def no_calls_def
      sample_meal1_def sample_meal2_def)

lemma battle_samples_high_draw:
  "battle (Inr (Finite (1 / 2))) always_commits
     \<lparr>combatants = [sample_meal1, sample_meal2]\<rparr> no_calls =
     (Inr ''Burger'', \<lparr>combatants = [sample_meal2]\<rparr>,
      \<lparr>calls = [(2, ''win''), (1, ''loss'')], store = 2\<rparr>)"
  by (simp add: battle_samples call_update_meal_stats_def always_commits_def no_calls_def
      sample_meal1_def sample_meal2_def)

lemma battle_samples_loss_fails:
  "battle (Inr (Finite (1 / 2))) fails_on_loss
     \<lparr>combatants = [sample_meal1, sample_meal2]\<rparr> no_calls =
     (Inl (OtherError ''database is locked''),
      \<lparr>combatants = [sample_meal1, sample_meal2]\<rparr>,
      \<lparr>calls = [(2, ''win''), (1, ''loss'')], store = 1\<rparr>)"
  by (simp add: battle_samples call_update_meal_stats_def fails_on_loss_def no_calls_def
      sample_meal1_def sample_meal2_def)

text \<open>
  Prices \<^verbatim>\<open>102.0\<close> and \<^verbatim>\<open>1.9999999999999951\<close>, cuisine \<^verbatim>\<open>'X'\<close>, HIGH: both
  scores are exact, their difference rounds to 100 and delta is exactly 1.
\<close>

lemma score_x_102:
  "get_battle_score (x_meal 5 ''Roast'' 102 ''HIGH'') = Inr (Finite 101)"
  by (simp add: get_battle_score_def difficulty_modifier_def x_meal_def
      int_to_double_def round_double_eval)

lemma score_x_2:
  "get_battle_score (x_meal 6 ''Salad'' (4503599627370485 / 2251799813685248) ''HIGH'') =
     Inr (Finite (2251799813685237 / 2251799813685248))"
  by (simp add: get_battle_score_def difficulty_modifier_def x_meal_def
      int_to_double_def round_double_eval)

lemma delta_x:
  "ddiv (dabs (dsub (Finite 101) (Finite (2251799813685237 / 2251799813685248))))
     (int_to_double 100) = Inr (Finite 1)"
  by (simp add: int_to_double_small round_double_eval)

lemma battle_x_tie:
  "battle (Inr (Finite 1)) always_commits
     \<lparr>combatants = [x_meal 5 ''Roast'' 102 ''HIGH'',
        x_meal 6 ''Salad'' (4503599627370485 / 2251799813685248) ''HIGH'']\<rparr> no_calls =
     (Inr ''Salad'',
      \<lparr>combatants = [x_meal 6 ''Salad'' (4503599627370485 / 2251799813685248) ''HIGH'']\<rparr>,
      \<lparr>calls = [(6, ''win''), (5, ''loss'')], store = 2\<rparr>)"
  by (simp add: battle_two [OF _ score_x_102 score_x_2 delta_x]
      call_update_meal_stats_def always_commits_def no_calls_def x_meal_def)

text \<open>
  Price \<^verbatim>\<open>1e17\<close>: subtracting 1 or 3 is absorbed by the rounding.  Price
  \<^verbatim>\<open>0.05\<close>, cuisine \<^verbatim>\<open>'Thai'\<close>: the scores are the doubles printed \<^verbatim>\<open>-0.8\<close>
  and \<^verbatim>\<open>-2.8\<close>.  Price \<^verbatim>\<open>12.5\<close>, cuisine \<^verbatim>\<open>'Italian'\<close>: nothing rounds.
\<close>

lemma score_x_1e17:
  "get_battle_score (x_meal 5 ''Roast'' (10 ^ 17) ''HIGH'') = Inr (Finite (10 ^ 17))"
  "get_battle_score (x_meal 5 ''Roast'' (10 ^ 17) ''LOW'') = Inr (Finite (10 ^ 17))"
  by (simp_all add: get_battle_score_def difficulty_modifier_def x_meal_def
      int_to_double_def round_double_eval)

lemma score_thai:
  "get_battle_score (thai_meal ''HIGH'') =
     Inr (Finite (- 3602879701896397 / 4503599627370496))"
  "get_battle_score (thai_meal ''LOW'') =
     Inr (Finite (- 3152519739159347 / 1125899906842624))"
  by (simp_all add: get_battle_score_def difficulty_modifier_def thai_meal_def
      int_to_double_def round_double_eval)

lemma is_double_small:
  "is_double 7" "is_double (175 / 2)" "is_double (171 / 2)"
  "is_double (173 / 2)" "is_double (169 / 2)"
  by (simp_all add: is_double_def round_double_eval)

lemma score_exact_meal:
  "get_battle_score (sample_meal1\<lparr>price := Finite (25 / 2)\<rparr>) = Inr (Finite (171 / 2))"
  "get_battle_score (sample_meal1\<lparr>price := Finite (25 / 2), difficulty := ''HIGH''\<rparr>) =
     Inr (Finite (173 / 2))"
  "get_battle_score (sample_meal1\<lparr>price := Finite (25 / 2), difficulty := ''LOW''\<rparr>) =
     Inr (Finite (169 / 2))"
  by (simp_all add: get_battle_score_def difficulty_modifier_def sample_meal1_def
      int_to_double_small round_double_eval)

lemma new_easy_meal: "new_Meal 3 ''Toast'' ''British'' (Finite 4) ''Easy'' = Inr easy_meal"
  by (simp add: new_Meal_def post_init_def easy_meal_def dlt_def)

lemma new_hard_meal: "new_Meal 4 ''Souffle'' ''French'' (Finite 18) ''Hard'' = Inr hard_meal"
  by (simp add: new_Meal_def post_init_def hard_meal_def dlt_def)

section \<open>Battle score\<close>

text \<open>
  The specification names the failures by role.  In the source they are Python's built-in
  exceptions: its \<^verbatim>\<open>InvalidAttributeError\<close> is the \<^verbatim>\<open>ValueError\<close> of
  \<^verbatim>\<open>Meal.__post_init__\<close>, its \<^verbatim>\<open>CapacityError\<close> the \<^verbatim>\<open>ValueError\<close> of
  \<^verbatim>\<open>prep_combatant\<close>, its \<^verbatim>\<open>InsufficientCombatantsError\<close> the
  \<^verbatim>\<open>ValueError\<close> of \<^verbatim>\<open>battle\<close>, and its \<^verbatim>\<open>UnknownDifficultyError\<close> the
  \<^verbatim>\<open>KeyError\<close> of the dictionary subscript in \<^verbatim>\<open>get_battle_score\<close>.
\<close>

text \<open>
  C1.  For a combatant whose difficulty is one of HIGH, MED, LOW, the score is the price
  multiplied by the number of characters of the cuisine, minus the penalty 1 for HIGH,
  2 for MED and 3 for LOW, where product and difference are those of Python floats
  (each rounded to binary64).  When the length, the exact product and the exact
  difference are binary64 values, the score is the exact number
  \<open>price * length - penalty\<close>.
\<close>

theorem get_battle_score_formula:
  "(difficulty m = ''HIGH'' \<longrightarrow>
      get_battle_score m =
        Inr (dsub (dmul (price m) (int_to_double (int (length (cuisine m))))) (Finite 1))) \<and>
   (difficulty m = ''MED'' \<longrightarrow>
      get_battle_score m =
        Inr (dsub (dmul (price m) (int_to_double (int (length (cuisine m))))) (Finite 2))) \<and>
   (difficulty m = ''LOW'' \<longrightarrow>
      get_battle_score m =
        Inr (dsub (dmul (price m) (int_to_double (int (length (cuisine m))))) (Finite 3))) \<and>
   (\<forall>p k. price m = Finite p \<and> difficulty_modifier (difficulty m) = Some k \<and>
      is_double (real (length (cuisine m))) \<and>
      is_double (p * real (length (cuisine m))) \<and>
      is_double (p * real (length (cuisine m)) - real_of_int k) \<longrightarrow>
      get_battle_score m = Inr (Finite (p * real (length (cuisine m)) - real_of_int k)))"
proof -
  have exact: "get_battle_score m = Inr (Finite (p * real (length (cuisine m)) - real_of_int k))"
    if "price m = Finite p" and k: "difficulty_modifier (difficulty m) = Some k"
      and "is_double (real (length (cuisine m)))"
      and "is_double (p * real (length (cuisine m)))"
      and "is_double (p * real (length (cuisine m)) - real_of_int k)" for p k
    using that penalty_exact [OF k]
    by (simp add: get_battle_score_def is_double_def int_to_double_def)
  show ?thesis
    using exact
    by (simp add: get_battle_score_def difficulty_modifier_def int_to_double_small)
qed

theorem get_battle_score_formula_witness:
  "difficulty sample_meal1 = ''MED'' \<and>
   get_battle_score sample_meal1 = Inr (Finite (1564473104929915 / 17592186044416)) \<and>
   difficulty (x_meal 5 ''Roast'' (10 ^ 17) ''HIGH'') = ''HIGH'' \<and>
   get_battle_score (x_meal 5 ''Roast'' (10 ^ 17) ''HIGH'') = Inr (Finite (10 ^ 17)) \<and>
   is_double 7 \<and> is_double (175 / 2) \<and> is_double (171 / 2) \<and>
   get_battle_score (sample_meal1\<lparr>price := Finite (25 / 2)\<rparr>) = Inr (Finite (171 / 2))"
proof -
  have med: "difficulty sample_meal1 = ''MED''"
    by (simp add: sample_meal1_def)
  have high: "difficulty (x_meal 5 ''Roast'' (10 ^ 17) ''HIGH'') = ''HIGH''"
    by (simp add: x_meal_def)
  have p: "price (sample_meal1\<lparr>price := Finite (25 / 2)\<rparr>) = Finite (25 / 2)"
    by simp
  have k: "difficulty_modifier (difficulty (sample_meal1\<lparr>price := Finite (25 / 2)\<rparr>)) = Some 2"
    by (simp add: sample_meal1_def difficulty_modifier_def)
  have e1: "is_double (real (length (cuisine (sample_meal1\<lparr>price := Finite (25 / 2)\<rparr>))))"
    by (simp add: sample_meal1_def is_double_small)
  have e2: "is_double
      (25 / 2 * real (length (cuisine (sample_meal1\<lparr>price := Finite (25 / 2)\<rparr>))))"
    by (simp add: sample_meal1_def is_double_small)
  have e3: "is_double
      (25 / 2 * real (length (cuisine (sample_meal1\<lparr>price := Finite (25 / 2)\<rparr>))) -
        real_of_int 2)"
    by (simp add: sample_meal1_def is_double_small)
  from get_battle_score_formula [of sample_meal1] med
  have s1: "get_battle_score sample_meal1 =
     Inr (dsub (dmul (price sample_meal1)
       (int_to_double (int (length (cuisine sample_meal1))))) (Finite 2))"
    by blast
  from get_battle_score_formula [of "x_meal 5 ''Roast'' (10 ^ 17) ''HIGH''"] high
  have s2: "get_battle_score (x_meal 5 ''Roast'' (10 ^ 17) ''HIGH'') =
     Inr (dsub (dmul (price (x_meal 5 ''Roast'' (10 ^ 17) ''HIGH''))
       (int_to_double (int (length (cuisine (x_meal 5 ''Roast'' (10 ^ 17) ''HIGH'')))))) (Finite 1))"
    by blast
  from get_battle_score_formula [of "sample_meal1\<lparr>price := Finite (25 / 2)\<rparr>"] p k e1 e2 e3
  have s3: "get_battle_score (sample_meal1\<lparr>price := Finite (25 / 2)\<rparr>) =
     Inr (Finite (25 / 2 * real (length (cuisine (sample_meal1\<lparr>price := Finite (25 / 2)\<rparr>))) -
       real_of_int 2))"
    by blast
  from s1 s2 s3 med high score_sample_meal1 score_x_1e17(1) score_exact_meal(1)
    is_double_small(1) is_double_small(2) is_double_small(3)
  show ?thesis
    by blast
qed

text \<open>
  C7.  For a combatant whose difficulty is none of HIGH, MED, LOW, the score is not
  computed: the dictionary subscript raises \<^verbatim>\<open>KeyError\<close> with the label as its key,
  whatever the price and the cuisine are.
\<close>

theorem get_battle_score_unknown_difficulty:
  "difficulty m \<notin> {''HIGH'', ''MED'', ''LOW''} \<Longrightarrow>
   get_battle_score m = Inl (KeyError (difficulty m))"
  by (simp add: get_battle_score_def difficulty_modifier_def)

theorem get_battle_score_unknown_difficulty_witness:
  "difficulty (sample_meal1\<lparr>difficulty := ''INVALID''\<rparr>) \<notin> {''HIGH'', ''MED'', ''LOW''} \<and>
   get_battle_score (sample_meal1\<lparr>difficulty := ''INVALID''\<rparr>) = Inl (KeyError ''INVALID'')"
proof -
  have h: "difficulty (sample_meal1\<lparr>difficulty := ''INVALID''\<rparr>) \<notin> {''HIGH'', ''MED'', ''LOW''}"
    by simp
  from get_battle_score_unknown_difficulty [OF h] h show ?thesis by simp
qed

text \<open>
  C9.  The claim as stated: for every price and cuisine the HIGH score exceeds the LOW
  score by exactly 2.  It fails in float arithmetic.  At price \<^verbatim>\<open>0.05\<close> and cuisine
  \<^verbatim>\<open>'Thai'\<close> (same price and cuisine, only the difficulty differs) the two scores
  differ by \<open>2 - 1 / 2 ^ 52\<close>; at price \<^verbatim>\<open>1e17\<close> and cuisine \<^verbatim>\<open>'X'\<close> they are
  equal.
\<close>

theorem high_low_difference_counterexample:
  "thai_meal ''HIGH'' = (thai_meal ''LOW'')\<lparr>difficulty := ''HIGH''\<rparr> \<and>
   is_double (3602879701896397 / 72057594037927936) \<and>
   get_battle_score (thai_meal ''HIGH'') =
     Inr (Finite (- 3602879701896397 / 4503599627370496)) \<and>
   get_battle_score (thai_meal ''LOW'') =
     Inr (Finite (- 3152519739159347 / 1125899906842624)) \<and>
   (- 3602879701896397 / 4503599627370496) - (- 3152519739159347 / 1125899906842624) =
     (2 :: real) - 1 / 2 ^ 52 \<and>
   (- 3602879701896397 / 4503599627370496) - (- 3152519739159347 / 1125899906842624) \<noteq>
     (2 :: real) \<and>
   get_battle_score (x_meal 5 ''Roast'' (10 ^ 17) ''HIGH'') = Inr (Finite (10 ^ 17)) \<and>
   get_battle_score (x_meal 5 ''Roast'' (10 ^ 17) ''LOW'') = Inr (Finite (10 ^ 17)) \<and>
   (10 ^ 17 :: real) - 10 ^ 17 \<noteq> 2"
proof -
  have same: "thai_meal ''HIGH'' = (thai_meal ''LOW'')\<lparr>difficulty := ''HIGH''\<rparr>"
    by (simp add: thai_meal_def)
  have dbl: "is_double (3602879701896397 / 72057594037927936)"
    by (simp add: is_double_def round_double_eval)
  have diff: "(- 3602879701896397 / 4503599627370496) -
      (- 3152519739159347 / 1125899906842624) = (2 :: real) - 1 / 2 ^ 52"
    by simp
  have not2: "(- 3602879701896397 / 4503599627370496) -
      (- 3152519739159347 / 1125899906842624) \<noteq> (2 :: real)"
    by simp
  have big: "(10 ^ 17 :: real) - 10 ^ 17 \<noteq> 2"
    by simp
  from same dbl diff not2 big score_thai score_x_1e17
  show ?thesis
    by blast
qed

text \<open>
  C9, amended.  Two combatants that differ in the difficulty only, one HIGH and one LOW,
  with a finite float product \<open>P\<close> of price and cuisine length: when neither
  subtraction rounds (\<open>P - 1\<close> and \<open>P - 3\<close> are binary64 values), the scores are
  \<open>P - 1\<close> and \<open>P - 3\<close>, so the HIGH score exceeds the LOW score by exactly 2.
\<close>

theorem high_exceeds_low_by_two_when_exact:
  assumes product: "dmul (price m) (int_to_double (int (length (cuisine m)))) = Finite P"
    and high: "is_double (P - 1)"
    and low: "is_double (P - 3)"
  shows "get_battle_score (m\<lparr>difficulty := ''HIGH''\<rparr>) = Inr (Finite (P - 1)) \<and>
         get_battle_score (m\<lparr>difficulty := ''LOW''\<rparr>) = Inr (Finite (P - 3)) \<and>
         (P - 1) - (P - 3) = 2"
  using assms
  by (simp add: get_battle_score_def difficulty_modifier_def int_to_double_small is_double_def)

theorem high_exceeds_low_by_two_when_exact_witness:
  "dmul (price (sample_meal1\<lparr>price := Finite (25 / 2)\<rparr>))
     (int_to_double (int (length (cuisine (sample_meal1\<lparr>price := Finite (25 / 2)\<rparr>))))) =
     Finite (175 / 2) \<and>
   is_double (175 / 2 - 1) \<and> is_double (175 / 2 - 3) \<and>
   get_battle_score (sample_meal1\<lparr>price := Finite (25 / 2), difficulty := ''HIGH''\<rparr>) =
     Inr (Finite (175 / 2 - 1)) \<and>
   get_battle_score (sample_meal1\<lparr>price := Finite (25 / 2), difficulty := ''LOW''\<rparr>) =
     Inr (Finite (175 / 2 - 3)) \<and>
   (175 / 2 - 1) - (175 / 2 - 3) = (2 :: real)"
proof -
  have product: "dmul (price (sample_meal1\<lparr>price := Finite (25 / 2)\<rparr>))
     (int_to_double (int (length (cuisine (sample_meal1\<lparr>price := Finite (25 / 2)\<rparr>))))) =
     Finite (175 / 2)"
    by (simp add: sample_meal1_def int_to_double_small round_double_eval)
  have high: "is_double (175 / 2 - 1)" and low: "is_double (175 / 2 - 3)"
    by (simp_all add: is_double_small)
  from high_exceeds_low_by_two_when_exact [OF product high low] product high low
  show ?thesis
    by simp
qed

section \<open>Meal construction\<close>

text \<open>
  C6.  Constructing a meal with a negative price raises \<^verbatim>\<open>ValueError\<close>; constructing
  one with a difficulty label the constructor does not recognise (its labels are Easy,
  Medium, Hard) raises \<^verbatim>\<open>ValueError\<close>; with a price of at least 0 and one of these
  labels the constructor returns the object holding exactly the five values given, and
  nothing else happens.
\<close>

theorem new_Meal_validation:
  "(dlt p (Finite 0) \<longrightarrow>
      new_Meal i n c p d = Inl (ValueError ''Price must be a positive value.'')) \<and>
   (d \<notin> {''Easy'', ''Medium'', ''Hard''} \<longrightarrow> (\<exists>msg. new_Meal i n c p d = Inl (ValueError msg))) \<and>
   (dge p (Finite 0) \<and> d \<in> {''Easy'', ''Medium'', ''Hard''} \<longrightarrow>
      new_Meal i n c p d =
        Inr \<lparr>id_Meal = i, meal = n, cuisine = c, price = p, difficulty = d\<rparr>)"
  by (auto simp: new_Meal_def post_init_def Let_def dge_def dlt_def)

theorem new_Meal_validation_witness:
  "dlt (Finite (- 11)) (Finite 0) \<and>
   new_Meal 1 ''Tacos'' ''Mexican'' (Finite (- 11)) ''Easy'' =
     Inl (ValueError ''Price must be a positive value.'') \<and>
   ''INVALID'' \<notin> {''Easy'', ''Medium'', ''Hard''} \<and>
   (\<exists>msg. new_Meal 1 ''Tacos'' ''Mexican'' (Finite 11) ''INVALID'' = Inl (ValueError msg)) \<and>
   dge (Finite 4) (Finite 0) \<and> ''Easy'' \<in> {''Easy'', ''Medium'', ''Hard''} \<and>
   new_Meal 3 ''Toast'' ''British'' (Finite 4) ''Easy'' = Inr easy_meal \<and>
   dge PInf (Finite 0) \<and>
   new_Meal 3 ''Toast'' ''British'' PInf ''Easy'' =
     Inr \<lparr>id_Meal = 3, meal = ''Toast'', cuisine = ''British'', price = PInf,
       difficulty = ''Easy''\<rparr>"
  using new_Meal_validation
      [where p = "Finite (- 11)" and i = 1 and n = "''Tacos''" and c = "''Mexican''"
        and d = "''Easy''"]
    new_Meal_validation
      [where p = "Finite 11" and i = 1 and n = "''Tacos''" and c = "''Mexican''"
        and d = "''INVALID''"]
    new_Meal_validation
      [where p = "Finite 4" and i = 3 and n = "''Toast''" and c = "''British''"
        and d = "''Easy''"]
    new_Meal_validation
      [where p = PInf and i = 3 and n = "''Toast''" and c = "''British''" and d = "''Easy''"]
  by (simp add: easy_meal_def dlt_def dge_def)

text \<open>
  C8.  A meal the constructor returns has one of the labels Easy, Medium, Hard, none of
  which is a key of the penalty table: its score is never computed, the subscript raises
  \<^verbatim>\<open>KeyError\<close>.  A battle between two such meals raises that \<^verbatim>\<open>KeyError\<close> for the
  first combatant, with the combatant list and the statistics side as they were: no
  Stats Updater call is made.
\<close>

theorem constructible_meals_never_score:
  assumes m1: "new_Meal i1 n1 u1 p1 d1 = Inr m1"
    and m2: "new_Meal i2 n2 u2 p2 d2 = Inr m2"
    and cs: "combatants self = [m1, m2]"
  shows "difficulty_modifier (difficulty m1) = None \<and>
         get_battle_score m1 = Inl (KeyError (difficulty m1)) \<and>
         get_battle_score m2 = Inl (KeyError (difficulty m2)) \<and>
         battle rnd upd self w = (Inl (KeyError (difficulty m1)), self, w)"
proof -
  have label: "difficulty_modifier (difficulty m) = None"
    if "new_Meal i n u p d = Inr m" for i n u p d m
  proof -
    from that have "difficulty m \<in> {''Easy'', ''Medium'', ''Hard''}"
      by (auto simp: new_Meal_def post_init_def Let_def split: if_splits)
    then show ?thesis
      by (auto simp: difficulty_modifier_def)
  qed
  from label [OF m1] have score1: "get_battle_score m1 = Inl (KeyError (difficulty m1))"
    by (simp add: get_battle_score_def)
  from label [OF m2] have score2: "get_battle_score m2 = Inl (KeyError (difficulty m2))"
    by (simp add: get_battle_score_def)
  from cs score1 have "battle rnd upd self w = (Inl (KeyError (difficulty m1)), self, w)"
    by (simp add: battle_def)
  with label [OF m1] score1 score2 show ?thesis by simp
qed

theorem constructible_meals_never_score_witness:
  "new_Meal 3 ''Toast'' ''British'' (Finite 4) ''Easy'' = Inr easy_meal \<and>
   new_Meal 4 ''Souffle'' ''French'' (Finite 18) ''Hard'' = Inr hard_meal \<and>
   get_battle_score easy_meal = Inl (KeyError ''Easy'') \<and>
   get_battle_score hard_meal = Inl (KeyError ''Hard'') \<and>
   battle (Inr (Finite (1 / 2))) always_commits
     \<lparr>combatants = [easy_meal, hard_meal]\<rparr> no_calls =
     (Inl (KeyError ''Easy''), \<lparr>combatants = [easy_meal, hard_meal]\<rparr>, no_calls)"
proof -
  have cs: "combatants \<lparr>combatants = [easy_meal, hard_meal]\<rparr> = [easy_meal, hard_meal]"
    by simp
  have d: "difficulty easy_meal = ''Easy''" "difficulty hard_meal = ''Hard''"
    by (simp_all add: easy_meal_def hard_meal_def)
  from constructible_meals_never_score
    [OF new_easy_meal new_hard_meal cs, of "Inr (Finite (1 / 2))" always_commits no_calls]
  show ?thesis
    by (simp add: d new_easy_meal new_hard_meal)
qed

section \<open>Resolving a battle\<close>

text \<open>
  C2.  Two staged combatants \<open>c1\<close>, \<open>c2\<close> in insertion order, scores \<open>s1\<close>, \<open>s2\<close>
  computed, draw \<open>r\<close>.  Delta, the absolute score difference divided by 100 (in float
  arithmetic), is computed without an exception.  If delta is greater than \<open>r\<close> the
  winner is \<open>c1\<close>, otherwise (equality included) it is \<open>c2\<close>: the first report this
  battle makes to the Stats Updater is a win for the winner's id, and a battle that
  returns gives the winner's name and leaves the winner as the only combatant.
\<close>

theorem battle_decision_rule:
  assumes cs: "combatants self = [c1, c2]"
    and s1: "get_battle_score c1 = Inr s1"
    and s2: "get_battle_score c2 = Inr s2"
    and run: "battle (Inr r) upd self w = (res, self', w')"
  shows "\<exists>delta. ddiv (dabs (dsub s1 s2)) (int_to_double 100) = Inr delta \<and>
         (dgt delta r \<longrightarrow>
            take 1 (drop (length (calls w)) (calls w')) = [(id_Meal c1, ''win'')] \<and>
            (\<forall>name. res = Inr name \<longrightarrow> name = meal c1 \<and> combatants self' = [c1])) \<and>
         (\<not> dgt delta r \<longrightarrow>
            take 1 (drop (length (calls w)) (calls w')) = [(id_Meal c2, ''win'')] \<and>
            (\<forall>name. res = Inr name \<longrightarrow> name = meal c2 \<and> combatants self' = [c2]))"
proof -
  obtain delta where d: "ddiv (dabs (dsub s1 s2)) (int_to_double 100) = Inr delta"
    using delta_computed by blast
  have "(dgt delta r \<longrightarrow>
            take 1 (drop (length (calls w)) (calls w')) = [(id_Meal c1, ''win'')] \<and>
            (\<forall>name. res = Inr name \<longrightarrow> name = meal c1 \<and> combatants self' = [c1])) \<and>
         (\<not> dgt delta r \<longrightarrow>
            take 1 (drop (length (calls w)) (calls w')) = [(id_Meal c2, ''win'')] \<and>
            (\<forall>name. res = Inr name \<longrightarrow> name = meal c2 \<and> combatants self' = [c2]))"
    using run unfolding battle_two [OF cs s1 s2 d]
    by (auto simp: Let_def call_update_meal_stats_def split: prod.splits option.splits if_splits)
  with d show ?thesis by blast
qed

theorem battle_decision_rule_witness:
  "battle (Inr (Finite (8654117043955145 / 72057594037927936))) always_commits
     \<lparr>combatants = [sample_meal1, sample_meal2]\<rparr> no_calls =
     (Inr ''Pizza'', \<lparr>combatants = [sample_meal1]\<rparr>,
      \<lparr>calls = [(1, ''win''), (2, ''loss'')], store = 2\<rparr>) \<and>
   dgt (Finite (8654117043955149 / 72057594037927936))
     (Finite (8654117043955145 / 72057594037927936)) \<and>
   take 1 (drop (length (calls no_calls)) [(1 :: int, ''win''), (2, ''loss'')]) =
     [(id_Meal sample_meal1, ''win'')] \<and>
   ''Pizza'' = meal sample_meal1 \<and>
   battle (Inr (Finite 1)) always_commits
     \<lparr>combatants = [x_meal 5 ''Roast'' 102 ''HIGH'',
        x_meal 6 ''Salad'' (4503599627370485 / 2251799813685248) ''HIGH'']\<rparr> no_calls =
     (Inr ''Salad'',
      \<lparr>combatants = [x_meal 6 ''Salad'' (4503599627370485 / 2251799813685248) ''HIGH'']\<rparr>,
      \<lparr>calls = [(6, ''win''), (5, ''loss'')], store = 2\<rparr>) \<and>
   \<not> dgt (Finite 1) (Finite 1) \<and>
   take 1 (drop (length (calls no_calls)) [(6 :: int, ''win''), (5, ''loss'')]) =
     [(id_Meal (x_meal 6 ''Salad'' (4503599627370485 / 2251799813685248) ''HIGH''), ''win'')] \<and>
   ''Salad'' = meal (x_meal 6 ''Salad'' (4503599627370485 / 2251799813685248) ''HIGH'')"
proof -
  have cs: "combatants \<lparr>combatants = [sample_meal1, sample_meal2]\<rparr> =
      [sample_meal1, sample_meal2]"
    by simp
  have xs: "combatants \<lparr>combatants = [x_meal 5 ''Roast'' 102 ''HIGH'',
        x_meal 6 ''Salad'' (4503599627370485 / 2251799813685248) ''HIGH'']\<rparr> =
      [x_meal 5 ''Roast'' 102 ''HIGH'',
        x_meal 6 ''Salad'' (4503599627370485 / 2251799813685248) ''HIGH'']"
    by simp
  from battle_decision_rule
    [OF cs score_sample_meal1 score_sample_meal2 battle_samples_draw_1201]
  have above: "take 1 (drop (length (calls no_calls)) [(1 :: int, ''win''), (2, ''loss'')]) =
      [(id_Meal sample_meal1, ''win'')] \<and> ''Pizza'' = meal sample_meal1"
    by (auto simp: delta_samples)
  from battle_decision_rule [OF xs score_x_102 score_x_2 battle_x_tie]
  have tie: "take 1 (drop (length (calls no_calls)) [(6 :: int, ''win''), (5, ''loss'')]) =
      [(id_Meal (x_meal 6 ''Salad'' (4503599627370485 / 2251799813685248) ''HIGH''), ''win'')] \<and>
      ''Salad'' = meal (x_meal 6 ''Salad'' (4503599627370485 / 2251799813685248) ''HIGH'')"
    by (auto simp: delta_x)
  have gt: "dgt (Finite (8654117043955149 / 72057594037927936))
      (Finite (8654117043955145 / 72057594037927936))"
    and eq: "\<not> dgt (Finite 1) (Finite 1)"
    by simp_all
  from above tie gt eq battle_samples_draw_1201 battle_x_tie show ?thesis
    by blast
qed

text \<open>
  C3.  A battle that starts with exactly two staged combatants and returns: one of the
  two is the winner and the other the loser, the list afterwards is the winner alone,
  the battle made exactly two Stats Updater calls, first a win for the winner's id and
  then a loss for the loser's id, and the value returned is the winner's name.
\<close>

theorem battle_success_effects:
  assumes two: "length (combatants self) = 2"
    and run: "battle rnd upd self w = (Inr name, self', w')"
  shows "\<exists>winner loser.
           (combatants self = [winner, loser] \<or> combatants self = [loser, winner]) \<and>
           combatants self' = [winner] \<and>
           calls w' = calls w @ [(id_Meal winner, ''win''), (id_Meal loser, ''loss'')] \<and>
           name = meal winner"
proof -
  from two obtain c1 c2 where cs: "combatants self = [c1, c2]"
    by (auto simp: length_Suc_conv numeral_2_eq_2)
  from run cs obtain s1 where s1: "get_battle_score c1 = Inr s1"
    by (cases "get_battle_score c1") (auto simp: battle_def Let_def)
  from run cs s1 obtain s2 where s2: "get_battle_score c2 = Inr s2"
    by (cases "get_battle_score c2") (auto simp: battle_def Let_def)
  obtain delta where d: "ddiv (dabs (dsub s1 s2)) (int_to_double 100) = Inr delta"
    using delta_computed by blast
  from run cs s1 s2 d obtain r where r: "rnd = Inr r"
    by (cases rnd) (auto simp: battle_def Let_def)
  show ?thesis
  proof (cases "dgt delta r")
    case True
    with run have "combatants self' = [c1] \<and>
        calls w' = calls w @ [(id_Meal c1, ''win''), (id_Meal c2, ''loss'')] \<and> name = meal c1"
      unfolding r battle_two [OF cs s1 s2 d]
      by (auto simp: Let_def call_update_meal_stats_def split: prod.splits option.splits)
    with cs show ?thesis by blast
  next
    case False
    with run have "combatants self' = [c2] \<and>
        calls w' = calls w @ [(id_Meal c2, ''win''), (id_Meal c1, ''loss'')] \<and> name = meal c2"
      unfolding r battle_two [OF cs s1 s2 d]
      by (auto simp: Let_def call_update_meal_stats_def split: prod.splits option.splits)
    with cs show ?thesis by blast
  qed
qed

theorem battle_success_effects_witness:
  "length (combatants \<lparr>combatants = [sample_meal1, sample_meal2]\<rparr>) = 2 \<and>
   battle (Inr (Finite (1 / 2))) always_commits
     \<lparr>combatants = [sample_meal1, sample_meal2]\<rparr> no_calls =
     (Inr ''Burger'', \<lparr>combatants = [sample_meal2]\<rparr>,
      \<lparr>calls = [(2, ''win''), (1, ''loss'')], store = 2\<rparr>) \<and>
   (\<exists>winner loser.
      ([sample_meal1, sample_meal2] = [winner, loser] \<or>
       [sample_meal1, sample_meal2] = [loser, winner]) \<and>
      [sample_meal2] = [winner] \<and>
      [(2, ''win''), (1, ''loss'')] =
        calls no_calls @ [(id_Meal winner, ''win''), (id_Meal loser, ''loss'')] \<and>
      ''Burger'' = meal winner)"
proof -
  have two: "length (combatants \<lparr>combatants = [sample_meal1, sample_meal2]\<rparr>) = 2"
    by simp
  from battle_success_effects [OF two battle_samples_high_draw] two
  show ?thesis
    by (simp add: battle_samples_high_draw)
qed

text \<open>
  C4.  With fewer than two staged combatants (none or one), \<^verbatim>\<open>battle\<close> raises the
  \<^verbatim>\<open>ValueError\<close> "Two combatants must be prepped for a battle."; the combatant list
  is as it was, and so is the statistics side: the Stats Updater is not called.
\<close>

theorem battle_insufficient_combatants:
  "length (combatants self) < 2 \<Longrightarrow>
   battle rnd upd self w =
     (Inl (ValueError ''Two combatants must be prepped for a battle.''), self, w)"
  by (simp add: battle_def)

theorem battle_insufficient_combatants_witness:
  "length (combatants BattleModel_init) < 2 \<and>
   battle (Inr (Finite (1 / 2))) always_commits BattleModel_init no_calls =
     (Inl (ValueError ''Two combatants must be prepped for a battle.''),
      BattleModel_init, no_calls) \<and>
   length (combatants \<lparr>combatants = [sample_meal1]\<rparr>) < 2 \<and>
   battle (Inr (Finite (1 / 2))) always_commits \<lparr>combatants = [sample_meal1]\<rparr> no_calls =
     (Inl (ValueError ''Two combatants must be prepped for a battle.''),
      \<lparr>combatants = [sample_meal1]\<rparr>, no_calls)"
proof -
  have none: "length (combatants BattleModel_init) < 2"
    by (simp add: BattleModel_init_def)
  have one: "length (combatants \<lparr>combatants = [sample_meal1]\<rparr>) < 2"
    by simp
  from battle_insufficient_combatants [OF none, of "Inr (Finite (1 / 2))" always_commits no_calls]
    battle_insufficient_combatants [OF one, of "Inr (Finite (1 / 2))" always_commits no_calls]
    none one
  show ?thesis by simp
qed

text \<open>
  C10.  The loser is removed after both reports.  When the report of the winner's win
  goes through and the report of the loser's loss raises, \<^verbatim>\<open>battle\<close> raises that
  exception; the object is untouched, so the list still holds both combatants in
  insertion order, while the call trace holds the win already reported (and the storage
  is what the two calls left).
\<close>

theorem loss_report_failure_keeps_both:
  assumes cs: "combatants self = [c1, c2]"
    and s1: "get_battle_score c1 = Inr s1"
    and s2: "get_battle_score c2 = Inr s2"
    and delta: "ddiv (dabs (dsub s1 s2)) (int_to_double 100) = Inr delta"
    and winner: "winner = (if dgt delta r then c1 else c2)"
    and loser: "loser = (if dgt delta r then c2 else c1)"
    and first: "upd (id_Meal winner) ''win'' (store w) = (None, d1)"
    and second: "upd (id_Meal loser) ''loss'' d1 = (Some e, d2)"
  shows "battle (Inr r) upd self w =
           (Inl e, self,
            \<lparr>calls = calls w @ [(id_Meal winner, ''win''), (id_Meal loser, ''loss'')],
             store = d2\<rparr>) \<and>
         combatants (fst (snd (battle (Inr r) upd self w))) = [c1, c2]"
proof -
  have "battle (Inr r) upd self w =
           (Inl e, self,
            \<lparr>calls = calls w @ [(id_Meal winner, ''win''), (id_Meal loser, ''loss'')],
             store = d2\<rparr>)"
  proof (cases "dgt delta r")
    case True
    with winner loser have "winner = c1" and "loser = c2" by simp_all
    with True first second show ?thesis
      by (simp add: battle_two [OF cs s1 s2 delta] call_update_meal_stats_def)
  next
    case False
    with winner loser have "winner = c2" and "loser = c1" by simp_all
    with False first second show ?thesis
      by (simp add: battle_two [OF cs s1 s2 delta] call_update_meal_stats_def)
  qed
  with cs show ?thesis by simp
qed

theorem loss_report_failure_keeps_both_witness:
  "ddiv (dabs (dsub (Finite (1564473104929915 / 17592186044416))
      (Finite (5412763802145915 / 70368744177664)))) (int_to_double 100) =
     Inr (Finite (8654117043955149 / 72057594037927936)) \<and>
   sample_meal2 = (if dgt (Finite (8654117043955149 / 72057594037927936)) (Finite (1 / 2))
                   then sample_meal1 else sample_meal2) \<and>
   fails_on_loss (id_Meal sample_meal2) ''win'' (store no_calls) = (None, 1) \<and>
   fails_on_loss (id_Meal sample_meal1) ''loss'' 1 =
     (Some (OtherError ''database is locked''), 1) \<and>
   battle (Inr (Finite (1 / 2))) fails_on_loss
     \<lparr>combatants = [sample_meal1, sample_meal2]\<rparr> no_calls =
     (Inl (OtherError ''database is locked''),
      \<lparr>combatants = [sample_meal1, sample_meal2]\<rparr>,
      \<lparr>calls = [(2, ''win''), (1, ''loss'')], store = 1\<rparr>) \<and>
   combatants (fst (snd (battle (Inr (Finite (1 / 2))) fails_on_loss
     \<lparr>combatants = [sample_meal1, sample_meal2]\<rparr> no_calls))) = [sample_meal1, sample_meal2]"
proof -
  have cs: "combatants \<lparr>combatants = [sample_meal1, sample_meal2]\<rparr> =
      [sample_meal1, sample_meal2]"
    by simp
  have winner: "sample_meal2 =
      (if dgt (Finite (8654117043955149 / 72057594037927936)) (Finite (1 / 2))
       then sample_meal1 else sample_meal2)"
    by simp
  have loser: "sample_meal1 =
      (if dgt (Finite (8654117043955149 / 72057594037927936)) (Finite (1 / 2))
       then sample_meal2 else sample_meal1)"
    by simp
  have first: "fails_on_loss (id_Meal sample_meal2) ''win'' (store no_calls) = (None, 1)"
    by (simp add: fails_on_loss_def no_calls_def)
  have second: "fails_on_loss (id_Meal sample_meal1) ''loss'' 1 =
      (Some (OtherError ''database is locked''), 1)"
    by (simp add: fails_on_loss_def)
  from loss_report_failure_keeps_both
    [OF cs score_sample_meal1 score_sample_meal2 delta_samples winner loser first second]
  have "combatants (fst (snd (battle (Inr (Finite (1 / 2))) fails_on_loss
     \<lparr>combatants = [sample_meal1, sample_meal2]\<rparr> no_calls))) = [sample_meal1, sample_meal2]"
    by blast
  with delta_samples winner first second battle_samples_loss_fails show ?thesis
    by blast
qed

section \<open>The two-slot bound\<close>

text \<open>
  C5.  The combatant list never holds more than two meals.  Staging into a model that
  holds two raises the \<^verbatim>\<open>ValueError\<close> "Combatant list is full, cannot add more
  combatants." and leaves the object as it was; staging, resolving and clearing each
  turn a list of at most two meals into a list of at most two meals; and after any
  sequence of these operations on a fresh model the list holds at most two.
\<close>

theorem combatants_at_most_two:
  "(length (combatants self) = 2 \<longrightarrow>
      prep_combatant self m =
        (Some (ValueError ''Combatant list is full, cannot add more combatants.''), self)) \<and>
   (length (combatants self) \<le> 2 \<longrightarrow>
      length (combatants (snd (prep_combatant self m))) \<le> 2 \<and>
      length (combatants (fst (snd (battle rnd upd self w)))) \<le> 2) \<and>
   length (combatants (clear_combatants self)) \<le> 2 \<and>
   length (combatants (fst (run_operations upd w ops))) \<le> 2"
proof -
  have full: "length (combatants self) = 2 \<longrightarrow>
      prep_combatant self m =
        (Some (ValueError ''Combatant list is full, cannot add more combatants.''), self)"
    by (simp add: prep_combatant_def)
  have stage: "length (combatants self) \<le> 2 \<longrightarrow>
      length (combatants (snd (prep_combatant self m))) \<le> 2"
    by (simp add: prep_combatant_length_le)
  have resolve: "length (combatants self) \<le> 2 \<longrightarrow>
      length (combatants (fst (snd (battle rnd upd self w)))) \<le> 2"
    using battle_length_le [of rnd upd self w] by simp
  have clear: "length (combatants (clear_combatants self)) \<le> 2"
    by (simp add: clear_combatants_def)
  have run: "length (combatants (fst (run_operations upd w ops))) \<le> 2"
    unfolding run_operations_def
    by (rule foldl_apply_operation_bound) (simp add: BattleModel_init_def)
  from full stage resolve clear run show ?thesis by blast
qed

theorem combatants_at_most_two_witness:
  "length (combatants \<lparr>combatants = [sample_meal1, sample_meal2]\<rparr>) = 2 \<and>
   prep_combatant \<lparr>combatants = [sample_meal1, sample_meal2]\<rparr> easy_meal =
     (Some (ValueError ''Combatant list is full, cannot add more combatants.''),
      \<lparr>combatants = [sample_meal1, sample_meal2]\<rparr>) \<and>
   length (combatants (fst (snd (battle (Inr (Finite (1 / 2))) always_commits
     \<lparr>combatants = [sample_meal1, sample_meal2]\<rparr> no_calls)))) \<le> 2 \<and>
   combatants (fst (run_operations always_commits no_calls
     [Stage sample_meal1, Stage sample_meal2, Stage easy_meal])) =
     [sample_meal1, sample_meal2] \<and>
   length (combatants (fst (run_operations always_commits no_calls
     [Stage sample_meal1, Stage sample_meal2, Stage easy_meal]))) \<le> 2"
proof -
  have two: "length (combatants \<lparr>combatants = [sample_meal1, sample_meal2]\<rparr>) = 2"
    by simp
  have run: "combatants (fst (run_operations always_commits no_calls
      [Stage sample_meal1, Stage sample_meal2, Stage easy_meal])) =
      [sample_meal1, sample_meal2]"
    by (simp add: run_operations_def BattleModel_init_def prep_combatant_def)
  from combatants_at_most_two
    [of "\<lparr>combatants = [sample_meal1, sample_meal2]\<rparr>" easy_meal "Inr (Finite (1 / 2))"
      always_commits no_calls "[Stage sample_meal1, Stage sample_meal2, Stage easy_meal]"]
    two run
  show ?thesis by simp
qed

end
